theory Spec2Isabelle
  imports Complex_Main
begin

section \<open>JavaScript numbers\<close>

text \<open>
  A JavaScript number is an IEEE 754 binary64 value. The model writes a finite
  one as the real it denotes and keeps the two infinities and NaN apart. It has a
  single zero: the sign of a zero result is not tracked.
\<close>

datatype num = Fin real | PInf | NInf | NaN

fun isFinite :: "num \<Rightarrow> bool" where
  "isFinite (Fin r) = True"
| "isFinite PInf = False"
| "isFinite NInf = False"
| "isFinite NaN = False"

fun js_neg :: "num \<Rightarrow> num" where
  "js_neg (Fin r) = Fin (- r)"
| "js_neg PInf = NInf"
| "js_neg NInf = PInf"
| "js_neg NaN = NaN"

text \<open>
  Rounding to nearest, ties to even. For a positive real \<open>x\<close>, \<open>binade x\<close> is the
  exponent \<open>e\<close> with \<open>2^e \<le> x < 2^(e+1)\<close>, not below that of the subnormal range;
  the representable numbers around \<open>x\<close> are the multiples of \<open>ulp x = 2^(e - 52)\<close>.
  A rounded magnitude of \<open>2^1024\<close> or more overflows to infinity.
\<close>

definition binade :: "real \<Rightarrow> int" where
  "binade x = max \<lfloor>log 2 x\<rfloor> (- 1022)"

definition ulp :: "real \<Rightarrow> real" where
  "ulp x = 2 powi (binade x - 52)"

definition rne :: "real \<Rightarrow> int" where
  "rne y =
     (let f = \<lfloor>y\<rfloor>; d = y - of_int f
      in if d < 1 / 2 then f
         else if d > 1 / 2 then f + 1
         else if even f then f else f + 1)"

definition rnd_mag :: "real \<Rightarrow> num" where
  "rnd_mag x =
     (if x = 0 then Fin 0
      else let r = of_int (rne (x / ulp x)) * ulp x
           in if r \<ge> 2 ^ 1024 then PInf else Fin r)"

definition rnd :: "real \<Rightarrow> num" where
  "rnd x = (if x < 0 then js_neg (rnd_mag (- x)) else rnd_mag x)"

text \<open>\<^verbatim>\<open>x + y\<close>: the exact sum, rounded; opposite infinities give NaN.\<close>

fun js_add :: "num \<Rightarrow> num \<Rightarrow> num" where
  "js_add NaN y = NaN"
| "js_add x NaN = NaN"
| "js_add (Fin a) (Fin b) = rnd (a + b)"
| "js_add (Fin a) PInf = PInf"
| "js_add (Fin a) NInf = NInf"
| "js_add PInf (Fin b) = PInf"
| "js_add NInf (Fin b) = NInf"
| "js_add PInf PInf = PInf"
| "js_add NInf NInf = NInf"
| "js_add PInf NInf = NaN"
| "js_add NInf PInf = NaN"

text \<open>\<^verbatim>\<open>x - y\<close> is \<^verbatim>\<open>x + (-y)\<close>.\<close>

definition js_sub :: "num \<Rightarrow> num \<Rightarrow> num" where
  "js_sub x y = js_add x (js_neg y)"

text \<open>An infinity with the sign of a real, NaN for zero (infinity times zero).\<close>

definition signed_inf :: "real \<Rightarrow> num" where
  "signed_inf r = (if r > 0 then PInf else if r < 0 then NInf else NaN)"

text \<open>\<^verbatim>\<open>x * y\<close>.\<close>

fun js_mul :: "num \<Rightarrow> num \<Rightarrow> num" where
  "js_mul NaN y = NaN"
| "js_mul x NaN = NaN"
| "js_mul (Fin a) (Fin b) = rnd (a * b)"
| "js_mul (Fin a) PInf = signed_inf a"
| "js_mul (Fin a) NInf = signed_inf (- a)"
| "js_mul PInf (Fin b) = signed_inf b"
| "js_mul NInf (Fin b) = signed_inf (- b)"
| "js_mul PInf PInf = PInf"
| "js_mul NInf NInf = PInf"
| "js_mul PInf NInf = NInf"
| "js_mul NInf PInf = NInf"

text \<open>
  \<^verbatim>\<open>x / y\<close>. The model's zero is the positive zero, so a nonzero finite number
  divided by zero takes the sign of the dividend. Every divisor in the code is a
  nonzero literal.
\<close>

fun js_div :: "num \<Rightarrow> num \<Rightarrow> num" where
  "js_div NaN y = NaN"
| "js_div x NaN = NaN"
| "js_div (Fin a) (Fin b) = (if b = 0 then signed_inf a else rnd (a / b))"
| "js_div (Fin a) PInf = Fin 0"
| "js_div (Fin a) NInf = Fin 0"
| "js_div PInf (Fin b) = (if b < 0 then NInf else PInf)"
| "js_div NInf (Fin b) = (if b < 0 then PInf else NInf)"
| "js_div PInf PInf = NaN"
| "js_div NInf NInf = NaN"
| "js_div PInf NInf = NaN"
| "js_div NInf PInf = NaN"

text \<open>\<^verbatim>\<open>x > y\<close>: false whenever an operand is NaN.\<close>

fun js_gt :: "num \<Rightarrow> num \<Rightarrow> bool" where
  "js_gt NaN y = False"
| "js_gt x NaN = False"
| "js_gt (Fin a) (Fin b) = (a > b)"
| "js_gt (Fin a) PInf = False"
| "js_gt (Fin a) NInf = True"
| "js_gt PInf (Fin b) = True"
| "js_gt NInf (Fin b) = False"
| "js_gt PInf PInf = False"
| "js_gt NInf NInf = False"
| "js_gt PInf NInf = True"
| "js_gt NInf PInf = False"


text \<open>\<^verbatim>\<open>!x\<close> on a number: zero and NaN are falsy.\<close>

fun falsy_num :: "num \<Rightarrow> bool" where
  "falsy_num (Fin r) = (r = 0)"
| "falsy_num NaN = True"
| "falsy_num PInf = False"
| "falsy_num NInf = False"

text \<open>
  The value of a finite number, and the numbers that are non-negative integers
  (the quantities the data model of the specification allows, and zero).
\<close>

fun real_of_num :: "num \<Rightarrow> real" where
  "real_of_num (Fin r) = r"
| "real_of_num PInf = 0"
| "real_of_num NInf = 0"
| "real_of_num NaN = 0"

fun is_nat_num :: "num \<Rightarrow> bool" where
  "is_nat_num (Fin r) = (0 \<le> r \<and> of_int \<lfloor>r\<rfloor> = r)"
| "is_nat_num PInf = False"
| "is_nat_num NInf = False"
| "is_nat_num NaN = False"

text \<open>
  The \<^verbatim>\<open>Math\<close> functions and exponentiation. ECMAScript leaves the values of
  \<^verbatim>\<open>Math.sin\<close>, \<^verbatim>\<open>Math.cos\<close>, \<^verbatim>\<open>Math.atan2\<close>, \<^verbatim>\<open>Math.sqrt\<close> and \<^verbatim>\<open>**\<close> on
  finite arguments to the implementation: the model takes the real functions an
  implementation computes as a parameter and rounds their values. On NaN and the
  infinities the results are fixed by the standard.
\<close>

record math_impl =
  m_sin :: "real \<Rightarrow> real"
  m_cos :: "real \<Rightarrow> real"
  m_atan2 :: "real \<Rightarrow> real \<Rightarrow> real"
  m_sqrt :: "real \<Rightarrow> real"
  m_pow2 :: "real \<Rightarrow> real"

text \<open>\<^verbatim>\<open>x ** 2\<close>.\<close>

fun js_pow2 :: "math_impl \<Rightarrow> num \<Rightarrow> num" where
  "js_pow2 m (Fin r) = rnd (m_pow2 m r)"
| "js_pow2 m PInf = PInf"
| "js_pow2 m NInf = PInf"
| "js_pow2 m NaN = NaN"

text \<open>\<^verbatim>\<open>Math.PI\<close>, the double nearest to \<open>\<pi>\<close>: 3.141592653589793.\<close>

definition Math_PI :: real where
  "Math_PI = 884279719003555 / 281474976710656"

fun Math_sin :: "math_impl \<Rightarrow> num \<Rightarrow> num" where
  "Math_sin m (Fin r) = rnd (m_sin m r)"
| "Math_sin m PInf = NaN"
| "Math_sin m NInf = NaN"
| "Math_sin m NaN = NaN"

fun Math_cos :: "math_impl \<Rightarrow> num \<Rightarrow> num" where
  "Math_cos m (Fin r) = rnd (m_cos m r)"
| "Math_cos m PInf = NaN"
| "Math_cos m NInf = NaN"
| "Math_cos m NaN = NaN"

text \<open>\<^verbatim>\<open>Math.sqrt\<close>: NaN below zero.\<close>

fun Math_sqrt :: "math_impl \<Rightarrow> num \<Rightarrow> num" where
  "Math_sqrt m (Fin r) = (if r < 0 then NaN else rnd (m_sqrt m r))"
| "Math_sqrt m PInf = PInf"
| "Math_sqrt m NInf = NaN"
| "Math_sqrt m NaN = NaN"

text \<open>
  \<^verbatim>\<open>Math.atan2(y, x)\<close>. With an infinite argument the result is the double nearest
  to the multiple of \<open>\<pi>\<close> that the standard names.
\<close>

fun Math_atan2 :: "math_impl \<Rightarrow> num \<Rightarrow> num \<Rightarrow> num" where
  "Math_atan2 m NaN x = NaN"
| "Math_atan2 m y NaN = NaN"
| "Math_atan2 m (Fin y) (Fin x) = rnd (m_atan2 m y x)"
| "Math_atan2 m (Fin y) PInf = Fin 0"
| "Math_atan2 m (Fin y) NInf = rnd (if y < 0 then - pi else pi)"
| "Math_atan2 m PInf (Fin x) = rnd (pi / 2)"
| "Math_atan2 m NInf (Fin x) = rnd (- (pi / 2))"
| "Math_atan2 m PInf PInf = rnd (pi / 4)"
| "Math_atan2 m PInf NInf = rnd (3 * pi / 4)"
| "Math_atan2 m NInf PInf = rnd (- (pi / 4))"
| "Math_atan2 m NInf NInf = rnd (- (3 * pi / 4))"

text \<open>\<^verbatim>\<open>Math.round\<close>: the nearest integer, halves towards \<open>+\<infinity>\<close>.\<close>

fun Math_round :: "num \<Rightarrow> num" where
  "Math_round (Fin r) = Fin (of_int \<lfloor>r + 1 / 2\<rfloor>)"
| "Math_round PInf = PInf"
| "Math_round NInf = NInf"
| "Math_round NaN = NaN"

text \<open>
  The mathematical two-argument arctangent, and the implementation whose
  functions are the exact ones (so that each result is the correctly rounded value).
\<close>

definition atan2_real :: "real \<Rightarrow> real \<Rightarrow> real" where
  "atan2_real y x =
     (if x > 0 then arctan (y / x)
      else if x < 0 then (if y \<ge> 0 then arctan (y / x) + pi else arctan (y / x) - pi)
      else if y > 0 then pi / 2
      else if y < 0 then - (pi / 2)
      else 0)"

definition exact_math :: math_impl where
  "exact_math = \<lparr>m_sin = sin, m_cos = cos, m_atan2 = atan2_real, m_sqrt = sqrt,
                  m_pow2 = (\<lambda>x. x ^ 2)\<rparr>"

section \<open>Data model of the dispatch planner (src/src/App.jsx)\<close>

text \<open>
  Quantities and capacities come from number inputs (\<^verbatim>\<open>+e.target.value\<close>) and
  are JavaScript numbers. Ids and clock readings are integers (\<^verbatim>\<open>Date.now()\<close>,
  integer literals) that are only stored and compared; they are modelled as
  \<open>int\<close>. Characters outside ASCII in string literals are written as their
  UTF-8 bytes.
\<close>

datatype grade = Regular | Premium | Diesel

datatype status = Planned | Delivered

record tank =
  t_id :: int
  t_grade :: grade
  t_capacity :: num

record site =
  s_id :: int
  s_name :: string
  s_address :: string
  s_phone :: string
  s_tanks :: "tank list"

record driver =
  d_id :: int
  d_name :: string
  d_phone :: string

text \<open>A line item \<^verbatim>\<open>{ grade, qty }\<close> of a load (line 359).\<close>

record load_item =
  i_grade :: grade
  i_qty :: num

text \<open>
  The planner's \<^verbatim>\<open>siteId\<close> and \<^verbatim>\<open>driverId\<close> state (lines 343, 344) holds
  either a number or the empty string \<^verbatim>\<open>""\<close>.
\<close>

datatype idval = EmptyStr | IdNum int

text \<open>JavaScript's \<^verbatim>\<open>!v\<close> on such a value: the empty string and \<open>0\<close> are falsy.\<close>

fun falsy :: "idval \<Rightarrow> bool" where
  "falsy EmptyStr = True"
| "falsy (IdNum n) = (n = 0)"

text \<open>
  The load object of lines 365-372. \<^verbatim>\<open>createdAt\<close> and \<^verbatim>\<open>deliveredAt\<close> are ISO
  renderings of a clock reading; the model keeps the reading (milliseconds) itself.
  \<^verbatim>\<open>deliveredAt\<close> is absent until \<^verbatim>\<open>markLoadDelivered\<close> adds it.
\<close>

record load =
  l_id :: int
  l_siteId :: idval
  l_driverId :: idval
  l_items :: "load_item list"
  l_status :: status
  l_createdAt :: int
  l_deliveredAt :: "int option"

text \<open>The three collections of \<^verbatim>\<open>useStore\<close> (lines 92-107).\<close>

record store =
  sites :: "site list"
  drivers :: "driver list"
  loads :: "load list"

text \<open>The component state of \<^verbatim>\<open>PlannerPage\<close> (lines 343-347).\<close>

record planner =
  p_siteId :: idval
  p_driverId :: idval
  p_items :: "load_item list"
  p_grade :: grade
  p_qty :: num

text \<open>Notifications raised through \<^verbatim>\<open>toast.error\<close> and \<^verbatim>\<open>toast.success\<close>.\<close>

datatype toast = ToastError string | ToastSuccess string

section \<open>Load planner\<close>

text \<open>
  \<^verbatim>\<open>items.reduce((sum, i) => sum + i.qty, 0)\<close> (line 353), a left-to-right sum in
  double precision, and the ceiling of line 354.
\<close>

definition totalQty :: "load_item list \<Rightarrow> num" where
  "totalQty its = foldl (\<lambda>sum i. js_add sum (i_qty i)) (Fin 0) its"

definition maxGal :: num where
  "maxGal = Fin 8800"

text \<open>
  The sum of the quantities in exact arithmetic, as the specification's invariant
  reads it; \<open>totalQty\<close> is what the code computes.
\<close>

definition exactQty :: "load_item list \<Rightarrow> real" where
  "exactQty its = sum_list (map (\<lambda>i. real_of_num (i_qty i)) its)"

text \<open>The quantity input's \<^verbatim>\<open>onChange\<close> (line 431) and the grade selector (line 423).\<close>

definition setQty :: "num \<Rightarrow> planner \<Rightarrow> planner" where
  "setQty n p = p\<lparr>p_qty := n\<rparr>"

definition setGrade :: "grade \<Rightarrow> planner \<Rightarrow> planner" where
  "setGrade g p = p\<lparr>p_grade := g\<rparr>"

text \<open>
  \<^verbatim>\<open>addItem\<close> (lines 356-361). Each handler call sees the committed component
  state; the result is the notification it returned, if any, and the state after
  the call. The two early returns call no state setter. The second message has a
  no-break space before \<^verbatim>\<open>gal\<close>.
\<close>

definition exceeds_msg :: string where
  "exceeds_msg = ''Exceeds 8,800'' @ [CHR 0xC2, CHR 0xA0] @ ''gal''"

definition addItem :: "planner \<Rightarrow> toast option \<times> planner" where
  "addItem p =
     (if falsy_num (p_qty p) then (Some (ToastError ''Qty?''), p)
      else if js_gt (js_add (totalQty (p_items p)) (p_qty p)) maxGal
        then (Some (ToastError exceeds_msg), p)
      else (None, p\<lparr>p_items := p_items p @ [\<lparr>i_grade = p_grade p, i_qty = p_qty p\<rparr>],
                      p_qty := Fin 0\<rparr>))"

text \<open>The planner page as first mounted over the initial store (lines 343-347).\<close>

definition planner0 :: planner where
  "planner0 = \<lparr>p_siteId = IdNum 101, p_driverId = IdNum 1, p_items = [],
               p_grade = Regular, p_qty = Fin 0\<rparr>"

text \<open>
  The site and driver selectors (lines 404, 412) store \<^verbatim>\<open>+e.target.value\<close>, a number.
\<close>

definition setSiteId :: "int \<Rightarrow> planner \<Rightarrow> planner" where
  "setSiteId n p = p\<lparr>p_siteId := IdNum n\<rparr>"

definition setDriverId :: "int \<Rightarrow> planner \<Rightarrow> planner" where
  "setDriverId n p = p\<lparr>p_driverId := IdNum n\<rparr>"

section \<open>The store (useStore, lines 91-146)\<close>

text \<open>
  The initial collections (lines 92-107). The site name holds an en dash, the
  address and the driver's name hold no-break spaces.
\<close>

definition store0 :: store where
  "store0 =
     \<lparr>sites = [\<lparr>s_id = 101,
                 s_name = ''Shell '' @ [CHR 0xE2, CHR 0x80, CHR 0x93] @ '' Clifton'',
                 s_address = ''123 MLK'' @ [CHR 0xC2, CHR 0xA0] @ ''Dr,'' @ [CHR 0xC2, CHR 0xA0]
                             @ ''Cincinnati'' @ [CHR 0xC2, CHR 0xA0] @ ''OH'',
                 s_phone = ''+15135559876'',
                 s_tanks = [\<lparr>t_id = 1, t_grade = Regular, t_capacity = Fin 10000\<rparr>,
                            \<lparr>t_id = 2, t_grade = Premium, t_capacity = Fin 8000\<rparr>]\<rparr>],
      drivers = [\<lparr>d_id = 1, d_name = ''R.'' @ [CHR 0xC2, CHR 0xA0] @ ''Singh'', d_phone = ''+15135551234''\<rparr>],
      loads = []\<rparr>"

text \<open>
  A patch object: the fields it carries replace the entity's, the others stay
  (\<^verbatim>\<open>{ ...s, ...patch }\<close>, lines 112 and 124).
\<close>

record site_patch =
  sp_id :: "int option"
  sp_name :: "string option"
  sp_address :: "string option"
  sp_phone :: "string option"
  sp_tanks :: "tank list option"

record driver_patch =
  dp_id :: "int option"
  dp_name :: "string option"
  dp_phone :: "string option"

definition patchSite :: "site \<Rightarrow> site_patch \<Rightarrow> site" where
  "patchSite s patch =
     \<lparr>s_id = (case sp_id patch of Some v \<Rightarrow> v | None \<Rightarrow> s_id s),
      s_name = (case sp_name patch of Some v \<Rightarrow> v | None \<Rightarrow> s_name s),
      s_address = (case sp_address patch of Some v \<Rightarrow> v | None \<Rightarrow> s_address s),
      s_phone = (case sp_phone patch of Some v \<Rightarrow> v | None \<Rightarrow> s_phone s),
      s_tanks = (case sp_tanks patch of Some v \<Rightarrow> v | None \<Rightarrow> s_tanks s)\<rparr>"

definition patchDriver :: "driver \<Rightarrow> driver_patch \<Rightarrow> driver" where
  "patchDriver d patch =
     \<lparr>d_id = (case dp_id patch of Some v \<Rightarrow> v | None \<Rightarrow> d_id d),
      d_name = (case dp_name patch of Some v \<Rightarrow> v | None \<Rightarrow> d_name d),
      d_phone = (case dp_phone patch of Some v \<Rightarrow> v | None \<Rightarrow> d_phone d)\<rparr>"

text \<open>Site helpers (lines 110-119).\<close>

definition addSite :: "site \<Rightarrow> store \<Rightarrow> store" where
  "addSite site st = st\<lparr>sites := sites st @ [site]\<rparr>"

definition updateSite :: "int \<Rightarrow> site_patch \<Rightarrow> store \<Rightarrow> store" where
  "updateSite k patch st =
     st\<lparr>sites := map (\<lambda>s. if s_id s = k then patchSite s patch else s) (sites st)\<rparr>"

definition deleteSite :: "int \<Rightarrow> store \<Rightarrow> store" where
  "deleteSite k st = st\<lparr>sites := filter (\<lambda>s. s_id s \<noteq> k) (sites st)\<rparr>"

definition addTankToSite :: "int \<Rightarrow> tank \<Rightarrow> store \<Rightarrow> store" where
  "addTankToSite siteId tank st =
     st\<lparr>sites := map (\<lambda>s. if s_id s = siteId then s\<lparr>s_tanks := s_tanks s @ [tank]\<rparr> else s)
                     (sites st)\<rparr>"

text \<open>Driver helpers (lines 122-125).\<close>

definition addDriver :: "driver \<Rightarrow> store \<Rightarrow> store" where
  "addDriver d st = st\<lparr>drivers := drivers st @ [d]\<rparr>"

definition updateDriver :: "int \<Rightarrow> driver_patch \<Rightarrow> store \<Rightarrow> store" where
  "updateDriver k patch st =
     st\<lparr>drivers := map (\<lambda>d. if d_id d = k then patchDriver d patch else d) (drivers st)\<rparr>"

definition deleteDriver :: "int \<Rightarrow> store \<Rightarrow> store" where
  "deleteDriver k st = st\<lparr>drivers := filter (\<lambda>d. d_id d \<noteq> k) (drivers st)\<rparr>"

text \<open>
  Load helpers (lines 128-130). \<open>now\<close> is the clock reading taken by
  \<^verbatim>\<open>new Date()\<close> inside \<^verbatim>\<open>markLoadDelivered\<close>.
\<close>

definition addLoad :: "load \<Rightarrow> store \<Rightarrow> store" where
  "addLoad l st = st\<lparr>loads := loads st @ [l]\<rparr>"

definition markLoadDelivered :: "int \<Rightarrow> int \<Rightarrow> store \<Rightarrow> store" where
  "markLoadDelivered k now st =
     st\<lparr>loads := map (\<lambda>l. if l_id l = k
                             then l\<lparr>l_status := Delivered, l_deliveredAt := Some now\<rparr>
                             else l)
                     (loads st)\<rparr>"

text \<open>
  The proof-of-delivery page (lines 545-561): the list shown under a tab, and the
  upload handler that the page attaches to the loads of the pending tab only
  (line 577). \<open>picked\<close> says whether the file input delivered a file.
\<close>

datatype tab = Pending | History

definition filteredLoads :: "tab \<Rightarrow> store \<Rightarrow> load list" where
  "filteredLoads t st =
     filter (\<lambda>l. if t = Pending then l_status l = Planned else l_status l = Delivered)
            (loads st)"

definition handleUpload :: "load \<Rightarrow> bool \<Rightarrow> int \<Rightarrow> store \<Rightarrow> toast option \<times> store" where
  "handleUpload l picked now st =
     (if picked
      then (Some (ToastSuccess (''POD saved '' @ [CHR 0xE2, CHR 0x80, CHR 0x93]
                                @ '' load marked delivered'')),
            markLoadDelivered (l_id l) now st)
      else (None, st))"

section \<open>Creating a load (handleCreateLoad, lines 363-378)\<close>

text \<open>
  \<open>idNow\<close> is the reading of \<^verbatim>\<open>Date.now()\<close> (line 366) and \<open>createdNow\<close> that of
  \<^verbatim>\<open>new Date()\<close> (line 371). \<^verbatim>\<open>notifyDriver\<close> is an asynchronous share or
  clipboard request whose outcome changes neither the store nor the planner state;
  it is left out.
\<close>

definition handleCreateLoad ::
  "int \<Rightarrow> int \<Rightarrow> store \<Rightarrow> planner \<Rightarrow> toast \<times> store \<times> planner" where
  "handleCreateLoad idNow createdNow st p =
     (if falsy (p_siteId p) \<or> falsy (p_driverId p) \<or> length (p_items p) = 0
      then (ToastError ''Fill all fields'', st, p)
      else
        let load = \<lparr>l_id = idNow, l_siteId = p_siteId p, l_driverId = p_driverId p,
                    l_items = p_items p, l_status = Planned, l_createdAt = createdNow,
                    l_deliveredAt = None\<rparr>
        in (ToastSuccess ''Load created'', addLoad load st, p\<lparr>p_items := []\<rparr>))"

text \<open>
  Mounting the planner page over the current store (lines 343-347):
  \<^verbatim>\<open>sites[0]?.id || ""\<close> and the same for drivers.
\<close>

definition mountPlanner :: "store \<Rightarrow> planner" where
  "mountPlanner st =
     \<lparr>p_siteId = (case sites st of [] \<Rightarrow> EmptyStr
                   | s # _ \<Rightarrow> if s_id s = 0 then EmptyStr else IdNum (s_id s)),
      p_driverId = (case drivers st of [] \<Rightarrow> EmptyStr
                   | d # _ \<Rightarrow> if d_id d = 0 then EmptyStr else IdNum (d_id d)),
      p_items = [], p_grade = Regular, p_qty = Fin 0\<rparr>"

section \<open>The operations of the system as events\<close>

text \<open>
  One event per handler or store helper that the pages call. \<^verbatim>\<open>addLoad\<close> has a
  single call site, inside \<^verbatim>\<open>handleCreateLoad\<close> (line 373), so it is not an event
  of its own. The store helpers take any argument, which covers every way the site,
  driver and proof-of-delivery pages call them.
\<close>

datatype event =
    SetSiteId int
  | SetDriverId int
  | SetGrade grade
  | SetQty num
  | AddItem
  | CreateLoad int int
  | MountPlanner
  | AddSite site
  | UpdateSite int site_patch
  | DeleteSite int
  | AddTankToSite int tank
  | AddDriver driver
  | UpdateDriver int driver_patch
  | DeleteDriver int
  | MarkLoadDelivered int int

fun step :: "event \<Rightarrow> store \<times> planner \<Rightarrow> store \<times> planner" where
  "step (SetSiteId n) (st, p) = (st, setSiteId n p)"
| "step (SetDriverId n) (st, p) = (st, setDriverId n p)"
| "step (SetGrade g) (st, p) = (st, setGrade g p)"
| "step (SetQty n) (st, p) = (st, setQty n p)"
| "step AddItem (st, p) = (st, snd (addItem p))"
| "step (CreateLoad idNow createdNow) (st, p) = snd (handleCreateLoad idNow createdNow st p)"
| "step MountPlanner (st, p) = (st, mountPlanner st)"
| "step (AddSite site) (st, p) = (addSite site st, p)"
| "step (UpdateSite k patch) (st, p) = (updateSite k patch st, p)"
| "step (DeleteSite k) (st, p) = (deleteSite k st, p)"
| "step (AddTankToSite k tank) (st, p) = (addTankToSite k tank st, p)"
| "step (AddDriver d) (st, p) = (addDriver d st, p)"
| "step (UpdateDriver k patch) (st, p) = (updateDriver k patch st, p)"
| "step (DeleteDriver k) (st, p) = (deleteDriver k st, p)"
| "step (MarkLoadDelivered k now) (st, p) = (markLoadDelivered k now st, p)"

text \<open>Running a sequence of events, oldest first, from a state.\<close>

fun run :: "event list \<Rightarrow> store \<times> planner \<Rightarrow> store \<times> planner" where
  "run [] s = s"
| "run (e # es) s = run es (step e s)"

text \<open>
  The capacity condition as the code tests it: the total it computes is not
  greater than the ceiling.
\<close>

definition within_capacity :: "load_item list \<Rightarrow> bool" where
  "within_capacity its = (\<not> js_gt (totalQty its) maxGal)"

definition capacity_inv :: "store \<times> planner \<Rightarrow> bool" where
  "capacity_inv s =
     (list_all (\<lambda>l. within_capacity (l_items l)) (loads (fst s))
      \<and> within_capacity (p_items (snd s)))"

section \<open>Distance and ETA (lines 476-532)\<close>

text \<open>\<^verbatim>\<open>haversineDistance\<close> (lines 476-484); a point is \<^verbatim>\<open>[lon, lat]\<close> in degrees.\<close>

definition toRad :: "num \<Rightarrow> num" where
  "toRad deg = js_div (js_mul deg (Fin Math_PI)) (Fin 180)"

definition haversineDistance :: "math_impl \<Rightarrow> num \<times> num \<Rightarrow> num \<times> num \<Rightarrow> num" where
  "haversineDistance m p1 p2 =
     (case p1 of (lon1, lat1) \<Rightarrow> case p2 of (lon2, lat2) \<Rightarrow>
        let R = Fin 6371;
            dLat = toRad (js_sub lat2 lat1);
            dLon = toRad (js_sub lon2 lon1);
            a = js_add (js_pow2 m (Math_sin m (js_div dLat (Fin 2))))
                       (js_mul (js_mul (Math_cos m (toRad lat1)) (Math_cos m (toRad lat2)))
                               (js_pow2 m (Math_sin m (js_div dLon (Fin 2)))));
            c = js_mul (Fin 2) (Math_atan2 m (Math_sqrt m a) (Math_sqrt m (js_sub (Fin 1) a)))
        in js_mul R c)"

text \<open>
  The estimate computed inside \<^verbatim>\<open>handleETA\<close> (lines 527-530), with the two
  points and the speed as parameters: the distance in kilometres and the rounded
  minutes.
\<close>

definition estimate ::
  "math_impl \<Rightarrow> num \<times> num \<Rightarrow> num \<times> num \<Rightarrow> num \<Rightarrow> num \<times> num" where
  "estimate m from to speedKmH =
     (let distKm = haversineDistance m from to;
          etaH = js_div distKm speedKmH;
          etaMin = Math_round (js_mul etaH (Fin 60))
      in (distKm, etaMin))"

text \<open>
  \<^verbatim>\<open>handleETA\<close> (lines 521-532). \<open>mapReady\<close> says whether the map object exists,
  \<open>markers\<close> are the driver markers' positions. Reading \<^verbatim>\<open>site.name\<close> of a
  missing first site throws a TypeError. The two decimal literals of line 526
  denote the doubles nearest to them. The success notification's text embeds
  the site name, the minutes and the distance printed with one decimal; the model
  keeps the three values.
\<close>

datatype js_exn = TypeError

record eta_toast =
  eta_site :: string
  eta_min :: num
  eta_km :: num

definition handleETA ::
  "math_impl \<Rightarrow> bool \<Rightarrow> (num \<times> num) list \<Rightarrow> site list \<Rightarrow> js_exn + eta_toast option" where
  "handleETA m mapReady markers sts =
     (if \<not> mapReady then Inr None
      else case markers of
        [] \<Rightarrow> Inr None
      | driverPos # _ \<Rightarrow>
          let sitePos = (rnd (- 84.51), rnd 39.10);
              est = estimate m driverPos sitePos (Fin 55)
          in case sts of
               [] \<Rightarrow> Inl TypeError
             | site # _ \<Rightarrow>
                 Inr (Some \<lparr>eta_site = s_name site, eta_min = snd est, eta_km = fst est\<rparr>))"

section \<open>Properties of rounding\<close>

lemma rne_of_int: "rne (of_int k) = k"
  by (simp add: rne_def)

lemma rne_ge_floor: "\<lfloor>y\<rfloor> \<le> rne y"
  by (simp add: rne_def Let_def)

lemma ulp_pos: "0 < ulp x"
  by (simp add: ulp_def)

lemma floor_log2_bounds:
  assumes "0 < x"
  shows "2 powi \<lfloor>log 2 x\<rfloor> \<le> x \<and> x < 2 powi (\<lfloor>log 2 x\<rfloor> + 1)"
proof -
  have "2 powr real_of_int \<lfloor>log 2 x\<rfloor> \<le> x \<and> x < 2 powr real_of_int (\<lfloor>log 2 x\<rfloor> + 1)"
    using floor_log_eq_powr_iff [of x 2 "\<lfloor>log 2 x\<rfloor>"] assms by simp
  then show ?thesis
    using powr_real_of_int' [of 2 "\<lfloor>log 2 x\<rfloor>"]
      powr_real_of_int' [of 2 "\<lfloor>log 2 x\<rfloor> + 1"]
    by simp
qed

lemma floor_log2_eq:
  assumes "2 powi e \<le> x" and "x < 2 powi (e + 1)"
  shows "\<lfloor>log 2 x\<rfloor> = e"
proof -
  have pos: "0 < x"
    using assms(1) zero_less_power_int [of "2::real" e] by linarith
  have "2 powr real_of_int e \<le> x \<and> x < 2 powr (real_of_int e + 1)"
    using assms powr_real_of_int' [of 2 e] powr_real_of_int' [of 2 "e + 1"] by simp
  then show ?thesis
    using floor_log_eq_powr_iff [of x 2 e] pos by simp
qed

lemma binade_eq:
  "2 powi e \<le> x \<Longrightarrow> x < 2 powi (e + 1) \<Longrightarrow> - 1022 \<le> e \<Longrightarrow> binade x = e"
  by (simp add: binade_def floor_log2_eq)

lemma rnd_mag_on_grid:
  assumes "x / ulp x = of_int k" and "x < 2 ^ 1024"
  shows "rnd_mag x = Fin x"
proof -
  have "x = of_int k * ulp x"
    using assms(1) ulp_pos [of x] by (simp add: field_simps)
  then have "of_int (rne (x / ulp x)) * ulp x = x"
    using assms(1) by (simp add: rne_of_int)
  with assms(2) show ?thesis
    by (simp add: rnd_mag_def Let_def)
qed

text \<open>
  A positive \<open>x = m * 2^j\<close> with \<open>m < 2^53\<close> and \<open>j \<ge> -1074\<close> lies on the grid of its
  own binade, so it is representable and rounds to itself.
\<close>

lemma binade_grid_le:
  assumes m: "0 < m" "m < 2 ^ 53" and j: "- 1074 \<le> j"
    and x: "x = of_int m * 2 powi j"
  shows "binade x - 52 \<le> j"
proof -
  have xpos: "0 < x" using m x by simp
  have "x < 2 ^ 53 * 2 powi j"
    unfolding x using m by (intro mult_strict_right_mono) simp_all
  also have "\<dots> = 2 powi (53 + j)"
    by (simp add: power_int_add)
  finally have up: "x < 2 powi (53 + j)" .
  have "2 powi \<lfloor>log 2 x\<rfloor> \<le> x"
    using floor_log2_bounds [OF xpos] by simp
  with up have "(2::real) powi \<lfloor>log 2 x\<rfloor> < 2 powi (53 + j)" by linarith
  then have "\<lfloor>log 2 x\<rfloor> < 53 + j"
    using power_int_increasing [of "53 + j" "\<lfloor>log 2 x\<rfloor>" "2::real"] by force
  with j show ?thesis by (simp add: binade_def)
qed


lemma grid_quotient_int:
  assumes "d \<le> j"
  shows "\<exists>k. of_int m * 2 powi j / 2 powi d = (of_int k :: real) \<and> (0 < m \<longrightarrow> 0 < k)"
proof -
  have "(2::real) powi j / 2 powi d = 2 powi (j - d)"
    by (simp add: power_int_diff)
  also have "\<dots> = 2 ^ nat (j - d)"
    using assms by (simp add: power_int_nonneg_exp)
  finally have q: "(2::real) powi j / 2 powi d = 2 ^ nat (j - d)" .
  have "of_int m * 2 powi j / 2 powi d = of_int m * ((2::real) powi j / 2 powi d)"
    by simp
  then have "of_int m * 2 powi j / 2 powi d = (of_int (m * 2 ^ nat (j - d)) :: real)"
    unfolding q by simp
  moreover have "0 < m \<longrightarrow> 0 < m * 2 ^ nat (j - d)" by simp
  ultimately show ?thesis by blast
qed

lemma rnd_mag_exact:
  assumes m: "0 < m" "m < 2 ^ 53" and j: "- 1074 \<le> j"
    and x: "x = of_int m * 2 powi j" and fin: "x < 2 ^ 1024"
  shows "rnd_mag x = Fin x"
proof -
  have "binade x - 52 \<le> j" by (rule binade_grid_le [OF m j x])
  then obtain k where "of_int m * 2 powi j / 2 powi (binade x - 52) = (of_int k :: real)"
    using grid_quotient_int [of "binade x - 52" j m] by blast
  then have "x / ulp x = of_int k" by (simp add: x ulp_def)
  then show ?thesis using fin by (rule rnd_mag_on_grid)
qed

text \<open>Rounding is monotone against a representable number below the argument.\<close>

lemma rnd_mag_ge_anchor:
  assumes m: "0 < m" "m < 2 ^ 53" and j: "- 1074 \<le> j"
    and a: "a = of_int m * 2 powi j" and le: "a \<le> x"
  shows "rnd_mag x = PInf \<or> (\<exists>r. rnd_mag x = Fin r \<and> a \<le> r)"
proof -
  have apos: "0 < a" using m a by simp
  with le have xpos: "0 < x" by linarith
  let ?u = "ulp x"
  let ?r = "of_int (rne (x / ?u)) * ?u"
  have upos: "0 < ?u" by (rule ulp_pos)
  have "a \<le> ?r"
  proof (cases "binade x - 52 \<le> j")
    case True
    then obtain k where k: "of_int m * 2 powi j / 2 powi (binade x - 52) = (of_int k :: real)"
      using grid_quotient_int [of "binade x - 52" j m] by blast
    then have ak: "a / ?u = of_int k" by (simp add: a ulp_def)
    have "a / ?u \<le> x / ?u"
      using le upos by (simp add: divide_right_mono)
    then have "k \<le> \<lfloor>x / ?u\<rfloor>"
      unfolding ak by (simp add: le_floor_iff)
    also have "\<dots> \<le> rne (x / ?u)" by (rule rne_ge_floor)
    finally have "of_int k * ?u \<le> ?r"
      using upos by (simp add: mult_right_mono)
    moreover have "a = of_int k * ?u"
      using ak upos by (simp add: field_simps)
    ultimately show ?thesis by simp
  next
    case False
    then have big: "j + 53 \<le> binade x" by simp
    with j have "- 1022 < binade x" by linarith
    then have be: "binade x = \<lfloor>log 2 x\<rfloor>"
      by (simp add: binade_def max_def split: if_splits)
    have lo: "2 powi binade x \<le> x"
      unfolding be using floor_log2_bounds [OF xpos] by simp
    have "(2::real) powi binade x / ?u = 2 powi (binade x - (binade x - 52))"
      unfolding ulp_def by (subst power_int_diff) simp_all
    then have q: "(2::real) powi binade x / ?u = of_int (2 ^ 52)" by simp
    have "2 powi binade x / ?u \<le> x / ?u"
      using lo upos by (simp add: divide_right_mono)
    then have "2 ^ 52 \<le> \<lfloor>x / ?u\<rfloor>"
      unfolding q by (simp only: le_floor_iff)
    also have "\<dots> \<le> rne (x / ?u)" by (rule rne_ge_floor)
    finally have "of_int (2 ^ 52) * ?u \<le> ?r"
      using upos by (intro mult_right_mono) simp_all
    moreover have "of_int (2 ^ 52) * ?u = 2 powi binade x"
      using q upos by (simp add: field_simps)
    moreover have "a < 2 ^ 53 * 2 powi j"
      unfolding a using m by (intro mult_strict_right_mono) simp_all
    moreover have "(2::real) ^ 53 * 2 powi j = 2 powi (j + 53)"
      by (simp add: power_int_add)
    moreover have "(2::real) powi (j + 53) \<le> 2 powi binade x"
      using big by (intro power_int_increasing) simp_all
    ultimately show ?thesis by linarith
  qed
  then show ?thesis
    using xpos by (auto simp: rnd_mag_def Let_def)
qed

lemma rnd_nat_exact:
  assumes "0 \<le> r" and "of_int \<lfloor>r\<rfloor> = r" and "r \<le> 2 ^ 53"
  shows "rnd r = Fin r"
proof (cases "r = 0")
  case True
  then show ?thesis by (simp add: rnd_def rnd_mag_def)
next
  case False
  with assms(1) have pos: "0 < r" by simp
  from assms(2) obtain n :: int where n: "r = of_int n" by metis
  have fin: "r < 2 ^ 1024"
  proof -
    have "(2::real) ^ 53 < 2 ^ 1024" by (rule power_strict_increasing) simp_all
    with assms(3) show ?thesis by linarith
  qed
  have "rnd_mag r = Fin r"
  proof (cases "r < 2 ^ 53")
    case True
    have "0 < n" using pos n by simp
    moreover have "n < 2 ^ 53"
    proof -
      have "(of_int n :: real) < of_int (2 ^ 53)" using True n by simp
      then show ?thesis by (simp only: of_int_less_iff)
    qed
    moreover have "r = of_int n * 2 powi 0" using n by simp
    ultimately show ?thesis
      using rnd_mag_exact [of n 0 r] fin by simp
  next
    case False
    with assms(3) have r: "r = of_int (2 ^ 52) * 2 powi 1" by simp
    show ?thesis
      using rnd_mag_exact [of "2 ^ 52" 1 r] r fin by simp
  qed
  with pos show ?thesis by (simp add: rnd_def)
qed

lemma rnd_int_exact:
  assumes "of_int \<lfloor>r\<rfloor> = r" and "\<bar>r\<bar> \<le> 2 ^ 53"
  shows "rnd r = Fin r"
proof (cases "r < 0")
  case False
  with assms show ?thesis by (intro rnd_nat_exact) simp_all
next
  case True
  from assms(1) obtain n :: int where n: "r = of_int n" by (metis)
  have "of_int \<lfloor>- r\<rfloor> = - r" by (simp add: n)
  moreover have "0 < - r" "- r \<le> 2 ^ 53" using True assms(2) by simp_all
  ultimately have "rnd (- r) = Fin (- r)" by (intro rnd_nat_exact) simp_all
  with True show ?thesis by (simp add: rnd_def)
qed

lemma rnd_ge_anchor:
  assumes "0 < n" and "n < 2 ^ 53" and "of_int n \<le> x"
  shows "rnd x = PInf \<or> (\<exists>r. rnd x = Fin r \<and> of_int n \<le> r)"
proof -
  have "0 < x" using assms(1,3) by (smt (verit) of_int_pos)
  then have "rnd x = rnd_mag x" by (simp add: rnd_def)
  moreover have "rnd_mag x = PInf \<or> (\<exists>r. rnd_mag x = Fin r \<and> of_int n \<le> r)"
    using rnd_mag_ge_anchor [of n 0 "of_int n" x] assms by simp
  ultimately show ?thesis by simp
qed

lemma js_neg_js_neg: "js_neg (js_neg x) = x"
  by (cases x) simp_all

lemma rnd_minus: "rnd (- x) = js_neg (rnd x)"
proof -
  consider "x < 0" | "x = 0" | "0 < x" by linarith
  then show ?thesis
  proof cases
    case 1
    then show ?thesis by (simp add: rnd_def js_neg_js_neg)
  next
    case 2
    then show ?thesis by (simp add: rnd_def rnd_mag_def)
  next
    case 3
    then show ?thesis by (simp add: rnd_def)
  qed
qed

text \<open>Sums of integers in the exactly representable range are exact.\<close>

lemma js_add_int_exact:
  "of_int \<lfloor>a + b\<rfloor> = a + b \<Longrightarrow> \<bar>a + b\<bar> \<le> 2 ^ 53 \<Longrightarrow> js_add (Fin a) (Fin b) = Fin (a + b)"
  by (simp add: rnd_int_exact)

lemma js_add_NaN_right: "js_add x NaN = NaN"
  by (cases x) simp_all

lemma js_mul_NaN_right: "js_mul x NaN = NaN"
  by (cases x) simp_all

lemma js_div_NaN_right: "js_div x NaN = NaN"
  by (cases x) simp_all

lemma js_gt_NaN_right: "\<not> js_gt x NaN"
  by (cases x) simp_all

section \<open>Properties of addItem\<close>

lemma totalQty_snoc: "totalQty (its @ [it]) = js_add (totalQty its) (i_qty it)"
  by (simp add: totalQty_def)

lemma exactQty_snoc: "exactQty (its @ [it]) = exactQty its + real_of_num (i_qty it)"
  by (simp add: exactQty_def)

text \<open>
  On non-negative integer quantities the code's total is the exact sum as long as
  that sum is within the ceiling, and is above the ceiling otherwise.
\<close>

lemma nat_total:
  assumes "\<forall>i \<in> set its. is_nat_num (i_qty i)"
  shows "0 \<le> exactQty its \<and> exactQty its \<in> \<int>
    \<and> (exactQty its \<le> 8800 \<longrightarrow> totalQty its = Fin (exactQty its))
    \<and> (8800 < exactQty its \<longrightarrow>
          totalQty its = PInf \<or> (\<exists>r. totalQty its = Fin r \<and> 8801 \<le> r))"
  using assms
proof (induction its rule: rev_induct)
  case Nil
  show ?case by (simp add: exactQty_def totalQty_def)
next
  case (snoc it its)
  let ?S = "exactQty its"
  from snoc.prems have nats: "\<forall>i \<in> set its. is_nat_num (i_qty i)" by simp
  note IH = snoc.IH [OF nats]
  from snoc.prems have "is_nat_num (i_qty it)" by simp
  then obtain q where q: "i_qty it = Fin q" "0 \<le> q" "q \<in> \<int>"
    by (cases "i_qty it") (auto simp: Ints_def)
  have S': "exactQty (its @ [it]) = ?S + q"
    by (simp add: exactQty_snoc q)
  have T': "totalQty (its @ [it]) = js_add (totalQty its) (Fin q)"
    by (simp add: totalQty_snoc q)
  have int': "?S + q \<in> \<int>" using IH q by (simp add: Ints_add)
  have nonneg': "0 \<le> ?S + q" using IH q by simp
  have low: "?S + q \<le> 8800 \<longrightarrow> totalQty (its @ [it]) = Fin (?S + q)"
  proof
    assume le: "?S + q \<le> 8800"
    with q have "?S \<le> 8800" by linarith
    with IH have "totalQty its = Fin ?S" by blast
    moreover have "rnd (?S + q) = Fin (?S + q)"
      using nonneg' int' le by (intro rnd_nat_exact) (simp_all add: of_int_floor)
    ultimately show "totalQty (its @ [it]) = Fin (?S + q)"
      by (simp add: T')
  qed
  have high: "8800 < ?S + q \<longrightarrow>
      totalQty (its @ [it]) = PInf \<or> (\<exists>r. totalQty (its @ [it]) = Fin r \<and> 8801 \<le> r)"
  proof
    assume gt: "8800 < ?S + q"
    from int' obtain n :: int where n: "?S + q = of_int n" by (auto simp: Ints_def)
    with gt have "8800 < n" by linarith
    then have ge: "(8801::real) \<le> ?S + q" unfolding n by linarith
    show "totalQty (its @ [it]) = PInf \<or> (\<exists>r. totalQty (its @ [it]) = Fin r \<and> 8801 \<le> r)"
    proof (cases "?S \<le> 8800")
      case True
      with IH have "totalQty its = Fin ?S" by blast
      then have "totalQty (its @ [it]) = rnd (?S + q)" by (simp add: T')
      then show ?thesis
        using rnd_ge_anchor [of 8801 "?S + q"] ge by simp
    next
      case False
      with IH consider "totalQty its = PInf"
        | r where "totalQty its = Fin r" "8801 \<le> r" by force
      then show ?thesis
      proof cases
        case 1
        then show ?thesis by (simp add: T')
      next
        case 2
        then have "totalQty (its @ [it]) = rnd (r + q)" by (simp add: T')
        moreover have "(8801::real) \<le> r + q" using 2 q by linarith
        ultimately show ?thesis
          using rnd_ge_anchor [of 8801 "r + q"] by simp
      qed
    qed
  qed
  from nonneg' int' low high show ?case
    unfolding S' by blast
qed

lemma nat_total_gt_iff:
  assumes "\<forall>i \<in> set its. is_nat_num (i_qty i)"
  shows "js_gt (totalQty its) maxGal = (8800 < exactQty its)"
proof (cases "exactQty its \<le> 8800")
  case True
  with nat_total [OF assms] have "totalQty its = Fin (exactQty its)" by blast
  with True show ?thesis by (simp add: maxGal_def)
next
  case False
  with nat_total [OF assms]
  have "totalQty its = PInf \<or> (\<exists>r. totalQty its = Fin r \<and> 8801 \<le> r)" by force
  with False show ?thesis by (auto simp: maxGal_def)
qed

lemma exceeds_msg_neq_qty: "exceeds_msg \<noteq> ''Qty?''"
  by (simp add: exceeds_msg_def)

text \<open>
  C1 (as amended). For a positive quantity \<open>q\<close>, \<open>addItem\<close> succeeds exactly when
  the total the code computes (the double-precision sum in list order) plus \<open>q\<close>,
  rounded, is not greater than 8800; it then appends the item, and otherwise
  returns the capacity error. When the quantities on the list and \<open>q\<close> are
  non-negative integers this is exactly \<open>S + q \<le> 8800\<close> for the exact sum \<open>S\<close>, so
  a total equal to the ceiling is accepted. In the scenario, 5000 and 3000 gallons
  are both accepted and a further 801 gallons is rejected with the capacity error.
\<close>

theorem addItem_capacity_check:
  "(js_gt (p_qty p) (Fin 0) \<longrightarrow>
      (fst (addItem p) = None)
        = (\<not> js_gt (js_add (totalQty (p_items p)) (p_qty p)) (Fin 8800))
    \<and> (fst (addItem p) \<noteq> None) = (addItem p = (Some (ToastError exceeds_msg), p))
    \<and> (fst (addItem p) = None \<longrightarrow>
         p_items (snd (addItem p))
           = p_items p @ [\<lparr>i_grade = p_grade p, i_qty = p_qty p\<rparr>]))
   \<and> ((\<forall>i \<in> set (p_items p). is_nat_num (i_qty i)) \<and> is_nat_num (p_qty p)
        \<and> p_qty p \<noteq> Fin 0 \<longrightarrow>
      (fst (addItem p) = None) = (exactQty (p_items p) + real_of_num (p_qty p) \<le> 8800))
   \<and> (let a1 = addItem (setQty (Fin 5000) planner0);
           a2 = addItem (setQty (Fin 3000) (snd a1));
           a3 = addItem (setQty (Fin 801) (snd a2))
       in fst a1 = None \<and> fst a2 = None
          \<and> map i_qty (p_items (snd a2)) = [Fin 5000, Fin 3000]
          \<and> fst a3 = Some (ToastError exceeds_msg)
          \<and> p_items (snd a3) = p_items (snd a2))"
proof -
  have general: "js_gt (p_qty p) (Fin 0) \<longrightarrow>
      (fst (addItem p) = None)
        = (\<not> js_gt (js_add (totalQty (p_items p)) (p_qty p)) (Fin 8800))
    \<and> (fst (addItem p) \<noteq> None) = (addItem p = (Some (ToastError exceeds_msg), p))
    \<and> (fst (addItem p) = None \<longrightarrow>
         p_items (snd (addItem p))
           = p_items p @ [\<lparr>i_grade = p_grade p, i_qty = p_qty p\<rparr>])"
    by (cases "p_qty p") (auto simp: addItem_def maxGal_def)
  have integers: "(\<forall>i \<in> set (p_items p). is_nat_num (i_qty i)) \<and> is_nat_num (p_qty p)
        \<and> p_qty p \<noteq> Fin 0 \<longrightarrow>
      (fst (addItem p) = None) = (exactQty (p_items p) + real_of_num (p_qty p) \<le> 8800)"
  proof
    assume h: "(\<forall>i \<in> set (p_items p). is_nat_num (i_qty i)) \<and> is_nat_num (p_qty p)
        \<and> p_qty p \<noteq> Fin 0"
    let ?it = "\<lparr>i_grade = p_grade p, i_qty = p_qty p\<rparr>"
    from h have "\<forall>i \<in> set (p_items p @ [?it]). is_nat_num (i_qty i)" by simp
    then have "js_gt (totalQty (p_items p @ [?it])) maxGal = (8800 < exactQty (p_items p @ [?it]))"
      by (rule nat_total_gt_iff)
    then have gt: "js_gt (js_add (totalQty (p_items p)) (p_qty p)) maxGal
        = (8800 < exactQty (p_items p) + real_of_num (p_qty p))"
      by (simp add: totalQty_snoc exactQty_snoc)
    from h have "\<not> falsy_num (p_qty p)" by (cases "p_qty p") simp_all
    then show "(fst (addItem p) = None) = (exactQty (p_items p) + real_of_num (p_qty p) \<le> 8800)"
      using gt by (auto simp: addItem_def)
  qed
  have scenario: "let a1 = addItem (setQty (Fin 5000) planner0);
           a2 = addItem (setQty (Fin 3000) (snd a1));
           a3 = addItem (setQty (Fin 801) (snd a2))
       in fst a1 = None \<and> fst a2 = None
          \<and> map i_qty (p_items (snd a2)) = [Fin 5000, Fin 3000]
          \<and> fst a3 = Some (ToastError exceeds_msg)
          \<and> p_items (snd a3) = p_items (snd a2)"
    by (simp add: addItem_def setQty_def planner0_def maxGal_def totalQty_def Let_def
        rnd_int_exact)
  from general integers scenario show ?thesis by blast
qed

text \<open>Witness: 8000 gallons loaded, 800 more reach the ceiling exactly and are accepted.\<close>

theorem addItem_capacity_check_witness:
  "js_gt (p_qty \<lparr>p_siteId = IdNum 101, p_driverId = IdNum 1,
        p_items = [\<lparr>i_grade = Regular, i_qty = Fin 5000\<rparr>, \<lparr>i_grade = Diesel, i_qty = Fin 3000\<rparr>],
        p_grade = Premium, p_qty = Fin 800\<rparr>) (Fin 0)
   \<and> exactQty [\<lparr>i_grade = Regular, i_qty = Fin 5000\<rparr>, \<lparr>i_grade = Diesel, i_qty = Fin 3000\<rparr>]
       + 800 = 8800
   \<and> fst (addItem \<lparr>p_siteId = IdNum 101, p_driverId = IdNum 1,
        p_items = [\<lparr>i_grade = Regular, i_qty = Fin 5000\<rparr>, \<lparr>i_grade = Diesel, i_qty = Fin 3000\<rparr>],
        p_grade = Premium, p_qty = Fin 800\<rparr>) = None
   \<and> p_items (snd (addItem \<lparr>p_siteId = IdNum 101, p_driverId = IdNum 1,
        p_items = [\<lparr>i_grade = Regular, i_qty = Fin 5000\<rparr>, \<lparr>i_grade = Diesel, i_qty = Fin 3000\<rparr>],
        p_grade = Premium, p_qty = Fin 800\<rparr>))
      = [\<lparr>i_grade = Regular, i_qty = Fin 5000\<rparr>, \<lparr>i_grade = Diesel, i_qty = Fin 3000\<rparr>,
         \<lparr>i_grade = Premium, i_qty = Fin 800\<rparr>]"
  using addItem_capacity_check
    [of "\<lparr>p_siteId = IdNum 101, p_driverId = IdNum 1,
        p_items = [\<lparr>i_grade = Regular, i_qty = Fin 5000\<rparr>, \<lparr>i_grade = Diesel, i_qty = Fin 3000\<rparr>],
        p_grade = Premium, p_qty = Fin 800\<rparr>"]
  by (simp add: exactQty_def)


text \<open>Rounding around \<open>2^54\<close>, where the representable numbers are 2 and 4 apart.\<close>

lemma rnd_two54: "rnd 18014398509481984 = Fin 18014398509481984"
proof -
  have "rnd_mag 18014398509481984 = Fin 18014398509481984"
    by (rule rnd_mag_exact [of "2 ^ 52" 2]) simp_all
  then show ?thesis by (simp add: rnd_def)
qed

lemma rnd_two54_less_one: "rnd 18014398509481983 = Fin 18014398509481984"
proof -
  have b: "binade 18014398509481983 = 53"
    by (rule binade_eq) simp_all
  have u: "ulp 18014398509481983 = 2"
    by (simp add: ulp_def b)
  have "rne (18014398509481983 / 2) = 9007199254740992"
    by (simp add: rne_def Let_def)
  then have "rnd_mag 18014398509481983 = Fin 18014398509481984"
    by (simp add: rnd_mag_def u Let_def)
  then show ?thesis by (simp add: rnd_def)
qed

lemma rnd_neg_two54: "rnd (- 18014398509481984) = Fin (- 18014398509481984)"
  using rnd_minus [of 18014398509481984] by (simp add: rnd_two54)

lemma rnd_neg_two54_plus_one: "rnd (- 18014398509481983) = Fin (- 18014398509481984)"
  using rnd_minus [of 18014398509481983] by (simp add: rnd_two54_less_one)

text \<open>
  The claim as stated fails where the running total is rounded. Adding \<open>-2^54\<close>
  and then 1 is accepted and leaves the code's total at \<open>-2^54\<close>; the positive
  quantity \<open>2^54 + 8800\<close> is then accepted, although the exact sum plus the quantity
  is 8801.
\<close>

theorem addItem_rounded_total_counterexample:
  "snd (addItem (setQty (Fin 1) (snd (addItem (setQty (Fin (- 18014398509481984)) planner0)))))
     = planner0\<lparr>p_items := [\<lparr>i_grade = Regular, i_qty = Fin (- 18014398509481984)\<rparr>,
                             \<lparr>i_grade = Regular, i_qty = Fin 1\<rparr>]\<rparr>
   \<and> exactQty [\<lparr>i_grade = Regular, i_qty = Fin (- 18014398509481984)\<rparr>,
               \<lparr>i_grade = Regular, i_qty = Fin 1\<rparr>] = - 18014398509481983
   \<and> js_gt (Fin 18014398509490784) (Fin 0)
   \<and> - 18014398509481983 + 18014398509490784 = (8801::real)
   \<and> fst (addItem (setQty (Fin 18014398509490784)
         (planner0\<lparr>p_items := [\<lparr>i_grade = Regular, i_qty = Fin (- 18014398509481984)\<rparr>,
                                 \<lparr>i_grade = Regular, i_qty = Fin 1\<rparr>]\<rparr>))) = None"
  by (simp add: addItem_def setQty_def planner0_def maxGal_def totalQty_def exactQty_def
      rnd_neg_two54 rnd_neg_two54_plus_one rnd_int_exact)

text \<open>
  C2 (as amended). A quantity of zero is rejected with the \<^verbatim>\<open>Qty?\<close> error and
  nothing is appended. A negative quantity passes that guard: it is rejected only by
  the capacity comparison, and is appended whenever the total plus the quantity does
  not exceed 8800; on a list of non-negative integers within the ceiling that is
  the case for every negative integer down to \<open>-2^53\<close>.
\<close>

theorem addItem_qty_guard:
  "(falsy_num (p_qty p) \<longrightarrow> addItem p = (Some (ToastError ''Qty?''), p))
   \<and> (js_gt (Fin 0) (p_qty p) \<longrightarrow> fst (addItem p) \<noteq> Some (ToastError ''Qty?''))
   \<and> (js_gt (Fin 0) (p_qty p)
        \<and> \<not> js_gt (js_add (totalQty (p_items p)) (p_qty p)) (Fin 8800) \<longrightarrow>
        addItem p = (None, p\<lparr>p_items := p_items p @ [\<lparr>i_grade = p_grade p, i_qty = p_qty p\<rparr>],
                              p_qty := Fin 0\<rparr>))
   \<and> ((\<forall>i \<in> set (p_items p). is_nat_num (i_qty i)) \<and> exactQty (p_items p) \<le> 8800
        \<and> p_qty p = Fin q \<and> q < 0 \<and> of_int \<lfloor>q\<rfloor> = q \<and> - (2 ^ 53) \<le> q \<longrightarrow>
        addItem p = (None, p\<lparr>p_items := p_items p @ [\<lparr>i_grade = p_grade p, i_qty = p_qty p\<rparr>],
                              p_qty := Fin 0\<rparr>))"
proof -
  have zero: "falsy_num (p_qty p) \<longrightarrow> addItem p = (Some (ToastError ''Qty?''), p)"
    by (simp add: addItem_def)
  have neg: "js_gt (Fin 0) (p_qty p) \<longrightarrow> fst (addItem p) \<noteq> Some (ToastError ''Qty?'')"
    by (cases "p_qty p") (auto simp: addItem_def exceeds_msg_neq_qty)
  have app: "js_gt (Fin 0) (p_qty p)
        \<and> \<not> js_gt (js_add (totalQty (p_items p)) (p_qty p)) (Fin 8800) \<longrightarrow>
        addItem p = (None, p\<lparr>p_items := p_items p @ [\<lparr>i_grade = p_grade p, i_qty = p_qty p\<rparr>],
                              p_qty := Fin 0\<rparr>)"
    by (cases "p_qty p") (auto simp: addItem_def maxGal_def)
  have ints: "(\<forall>i \<in> set (p_items p). is_nat_num (i_qty i)) \<and> exactQty (p_items p) \<le> 8800
        \<and> p_qty p = Fin q \<and> q < 0 \<and> of_int \<lfloor>q\<rfloor> = q \<and> - (2 ^ 53) \<le> q \<longrightarrow>
        addItem p = (None, p\<lparr>p_items := p_items p @ [\<lparr>i_grade = p_grade p, i_qty = p_qty p\<rparr>],
                              p_qty := Fin 0\<rparr>)"
  proof
    assume h: "(\<forall>i \<in> set (p_items p). is_nat_num (i_qty i)) \<and> exactQty (p_items p) \<le> 8800
        \<and> p_qty p = Fin q \<and> q < 0 \<and> of_int \<lfloor>q\<rfloor> = q \<and> - (2 ^ 53) \<le> q"
    let ?S = "exactQty (p_items p)"
    from h nat_total [of "p_items p"]
    have S: "0 \<le> ?S" "?S \<in> \<int>" "totalQty (p_items p) = Fin ?S" by blast+
    from h have "q \<in> \<int>" by (metis Ints_of_int)
    with S have "?S + q \<in> \<int>" by (simp add: Ints_add)
    then have "of_int \<lfloor>?S + q\<rfloor> = ?S + q" by (rule of_int_floor)
    moreover have "\<bar>?S + q\<bar> \<le> 2 ^ 53"
    proof -
      from h have "q < 0" "- 9007199254740992 \<le> q" "?S \<le> 8800" by simp_all
      with S(1) have "\<bar>?S + q\<bar> \<le> 9007199254740992" by linarith
      then show ?thesis by simp
    qed
    ultimately have "rnd (?S + q) = Fin (?S + q)" by (rule rnd_int_exact)
    moreover have "?S + q \<le> 8800" using h by linarith
    ultimately show "addItem p
        = (None, p\<lparr>p_items := p_items p @ [\<lparr>i_grade = p_grade p, i_qty = p_qty p\<rparr>],
                    p_qty := Fin 0\<rparr>)"
      using h S by (simp add: addItem_def maxGal_def)
  qed
  from zero neg app ints show ?thesis by blast
qed

theorem addItem_qty_guard_witness:
  "falsy_num (p_qty (setQty (Fin 0) planner0))
   \<and> addItem (setQty (Fin 0) planner0) = (Some (ToastError ''Qty?''), setQty (Fin 0) planner0)
   \<and> js_gt (Fin 0) (p_qty (setQty (Fin (- 40)) planner0))
   \<and> exactQty (p_items (setQty (Fin (- 40)) planner0)) \<le> 8800
   \<and> fst (addItem (setQty (Fin (- 40)) planner0)) \<noteq> Some (ToastError ''Qty?'')
   \<and> p_items (snd (addItem (setQty (Fin (- 40)) planner0)))
       = [\<lparr>i_grade = Regular, i_qty = Fin (- 40)\<rparr>]"
  using addItem_qty_guard [of "setQty (Fin 0) planner0"]
    addItem_qty_guard [of "setQty (Fin (- 40)) planner0" "- 40"]
  by (simp add: setQty_def planner0_def exactQty_def)

text \<open>
  The claim as stated fails for a negative quantity: with no items yet, a quantity
  of \<open>-5\<close> raises no error and is appended.
\<close>

theorem addItem_negative_qty_counterexample:
  "fst (addItem (setQty (Fin (- 5)) planner0)) = None
   \<and> p_items (snd (addItem (setQty (Fin (- 5)) planner0)))
       = [\<lparr>i_grade = Regular, i_qty = Fin (- 5)\<rparr>]"
  by (simp add: addItem_def setQty_def planner0_def maxGal_def totalQty_def rnd_int_exact)

text \<open>
  C3. When \<open>addItem\<close> fails (either error), the planner state, and so the item list,
  is exactly what it was; otherwise exactly one item is appended at the end. There
  is no third outcome.
\<close>

theorem addItem_all_or_nothing:
  "(fst (addItem p) \<noteq> None \<longrightarrow> snd (addItem p) = p)
   \<and> (fst (addItem p) = None \<longrightarrow>
        p_items (snd (addItem p)) = p_items p @ [\<lparr>i_grade = p_grade p, i_qty = p_qty p\<rparr>])
   \<and> (fst (addItem p) = Some (ToastError ''Qty?'')
        \<or> fst (addItem p) = Some (ToastError exceeds_msg)
        \<or> fst (addItem p) = None)"
  by (simp add: addItem_def)

theorem addItem_all_or_nothing_witness:
  "fst (addItem \<lparr>p_siteId = IdNum 101, p_driverId = IdNum 1,
         p_items = [\<lparr>i_grade = Regular, i_qty = Fin 8000\<rparr>], p_grade = Diesel,
         p_qty = Fin 801\<rparr>) \<noteq> None
   \<and> snd (addItem \<lparr>p_siteId = IdNum 101, p_driverId = IdNum 1,
         p_items = [\<lparr>i_grade = Regular, i_qty = Fin 8000\<rparr>], p_grade = Diesel,
         p_qty = Fin 801\<rparr>)
       = \<lparr>p_siteId = IdNum 101, p_driverId = IdNum 1,
         p_items = [\<lparr>i_grade = Regular, i_qty = Fin 8000\<rparr>], p_grade = Diesel,
         p_qty = Fin 801\<rparr>
   \<and> fst (addItem (setQty (Fin 0) planner0)) \<noteq> None
   \<and> snd (addItem (setQty (Fin 0) planner0)) = setQty (Fin 0) planner0
   \<and> fst (addItem (setQty (Fin 700) planner0)) = None
   \<and> p_items (snd (addItem (setQty (Fin 700) planner0)))
       = [\<lparr>i_grade = Regular, i_qty = Fin 700\<rparr>]"
  using addItem_all_or_nothing [of "\<lparr>p_siteId = IdNum 101, p_driverId = IdNum 1,
         p_items = [\<lparr>i_grade = Regular, i_qty = Fin 8000\<rparr>], p_grade = Diesel,
         p_qty = Fin 801\<rparr>"]
    addItem_all_or_nothing [of "setQty (Fin 0) planner0"]
    addItem_all_or_nothing [of "setQty (Fin 700) planner0"]
  by (simp add: addItem_def setQty_def planner0_def maxGal_def totalQty_def rnd_int_exact)

section \<open>Properties of handleCreateLoad\<close>

lemma mountPlanner_store0: "mountPlanner store0 = planner0"
  by (simp add: mountPlanner_def store0_def planner0_def)

text \<open>
  C4 (as amended). Creating a load fails with the validation error exactly when
  the site is unset, the driver is unset (\<^verbatim>\<open>!siteId\<close>, \<^verbatim>\<open>!driverId\<close>) or there is
  no item, and then changes nothing. Otherwise it succeeds and appends to the
  store a load with status Planned, the given site, driver and items, the current
  time as creation timestamp, and the clock reading of \<^verbatim>\<open>Date.now()\<close> as its id.
  The id is not compared with the stored ones: it is new exactly when no stored
  load carries that reading.
\<close>

theorem handleCreateLoad_outcome:
  "(fst (handleCreateLoad idNow createdNow st p) = ToastError ''Fill all fields'')
      = (falsy (p_siteId p) \<or> falsy (p_driverId p) \<or> p_items p = [])
   \<and> (fst (handleCreateLoad idNow createdNow st p) = ToastError ''Fill all fields'' \<longrightarrow>
        snd (handleCreateLoad idNow createdNow st p) = (st, p))
   \<and> (\<not> falsy (p_siteId p) \<and> \<not> falsy (p_driverId p) \<and> p_items p \<noteq> [] \<longrightarrow>
        handleCreateLoad idNow createdNow st p
          = (ToastSuccess ''Load created'',
             st\<lparr>loads := loads st @
                  [\<lparr>l_id = idNow, l_siteId = p_siteId p, l_driverId = p_driverId p,
                    l_items = p_items p, l_status = Planned, l_createdAt = createdNow,
                    l_deliveredAt = None\<rparr>]\<rparr>,
             p\<lparr>p_items := []\<rparr>)
        \<and> (l_id (last (loads (fst (snd (handleCreateLoad idNow createdNow st p)))))
               \<in> l_id ` set (loads st))
            = (idNow \<in> l_id ` set (loads st)))"
  by (auto simp: handleCreateLoad_def addLoad_def Let_def)

text \<open>
  Witness: with one load of id 10 already stored, one item for site 101 and
  driver 1 creates a second load whose id, a later clock reading, is new; an
  empty item list, an unset site and an unset driver each fail.
\<close>

theorem handleCreateLoad_outcome_witness:
  "handleCreateLoad 1750000000000 1750000000001
       (addLoad \<lparr>l_id = 10, l_siteId = IdNum 101, l_driverId = IdNum 1,
                 l_items = [\<lparr>i_grade = Regular, i_qty = Fin 5000\<rparr>], l_status = Planned,
                 l_createdAt = 11, l_deliveredAt = None\<rparr> store0)
       (planner0\<lparr>p_items := [\<lparr>i_grade = Diesel, i_qty = Fin 8800\<rparr>]\<rparr>)
     = (ToastSuccess ''Load created'',
        store0\<lparr>loads := [\<lparr>l_id = 10, l_siteId = IdNum 101, l_driverId = IdNum 1,
                    l_items = [\<lparr>i_grade = Regular, i_qty = Fin 5000\<rparr>], l_status = Planned,
                    l_createdAt = 11, l_deliveredAt = None\<rparr>,
                   \<lparr>l_id = 1750000000000, l_siteId = IdNum 101, l_driverId = IdNum 1,
                    l_items = [\<lparr>i_grade = Diesel, i_qty = Fin 8800\<rparr>], l_status = Planned,
                    l_createdAt = 1750000000001, l_deliveredAt = None\<rparr>]\<rparr>,
        planner0)
   \<and> l_id (last (loads (fst (snd (handleCreateLoad 1750000000000 1750000000001
       (addLoad \<lparr>l_id = 10, l_siteId = IdNum 101, l_driverId = IdNum 1,
                 l_items = [\<lparr>i_grade = Regular, i_qty = Fin 5000\<rparr>], l_status = Planned,
                 l_createdAt = 11, l_deliveredAt = None\<rparr> store0)
       (planner0\<lparr>p_items := [\<lparr>i_grade = Diesel, i_qty = Fin 8800\<rparr>]\<rparr>))))))
       \<notin> l_id ` set (loads (addLoad \<lparr>l_id = 10, l_siteId = IdNum 101, l_driverId = IdNum 1,
                 l_items = [\<lparr>i_grade = Regular, i_qty = Fin 5000\<rparr>], l_status = Planned,
                 l_createdAt = 11, l_deliveredAt = None\<rparr> store0))
   \<and> handleCreateLoad 5 6 store0 planner0 = (ToastError ''Fill all fields'', store0, planner0)
   \<and> fst (handleCreateLoad 5 6 store0
         (planner0\<lparr>p_siteId := EmptyStr, p_items := [\<lparr>i_grade = Diesel, i_qty = Fin 1\<rparr>]\<rparr>))
       = ToastError ''Fill all fields''
   \<and> fst (handleCreateLoad 5 6 store0
         (planner0\<lparr>p_driverId := EmptyStr, p_items := [\<lparr>i_grade = Diesel, i_qty = Fin 1\<rparr>]\<rparr>))
       = ToastError ''Fill all fields''"
  using handleCreateLoad_outcome [of 1750000000000 1750000000001
          "addLoad \<lparr>l_id = 10, l_siteId = IdNum 101, l_driverId = IdNum 1,
                 l_items = [\<lparr>i_grade = Regular, i_qty = Fin 5000\<rparr>], l_status = Planned,
                 l_createdAt = 11, l_deliveredAt = None\<rparr> store0"
          "planner0\<lparr>p_items := [\<lparr>i_grade = Diesel, i_qty = Fin 8800\<rparr>]\<rparr>"]
    handleCreateLoad_outcome [of 5 6 store0 planner0]
    handleCreateLoad_outcome [of 5 6 store0
          "planner0\<lparr>p_siteId := EmptyStr, p_items := [\<lparr>i_grade = Diesel, i_qty = Fin 1\<rparr>]\<rparr>"]
    handleCreateLoad_outcome [of 5 6 store0
          "planner0\<lparr>p_driverId := EmptyStr, p_items := [\<lparr>i_grade = Diesel, i_qty = Fin 1\<rparr>]\<rparr>"]
  by (simp add: planner0_def store0_def addLoad_def prod_eq_iff)

text \<open>
  The claim as stated fails: the id is not fresh when the clock reading is that
  of a stored load. With a load of id 5 in the store, creating a load at reading 5
  succeeds and the store then holds two loads of id 5.
\<close>

theorem handleCreateLoad_duplicate_id_counterexample:
  "fst (handleCreateLoad 5 6
         (addLoad \<lparr>l_id = 5, l_siteId = IdNum 101, l_driverId = IdNum 1,
                   l_items = [\<lparr>i_grade = Regular, i_qty = Fin 5000\<rparr>], l_status = Planned,
                   l_createdAt = 5, l_deliveredAt = None\<rparr> store0)
         (planner0\<lparr>p_items := [\<lparr>i_grade = Diesel, i_qty = Fin 100\<rparr>]\<rparr>))
     = ToastSuccess ''Load created''
   \<and> map l_id (loads (fst (snd (handleCreateLoad 5 6
         (addLoad \<lparr>l_id = 5, l_siteId = IdNum 101, l_driverId = IdNum 1,
                   l_items = [\<lparr>i_grade = Regular, i_qty = Fin 5000\<rparr>], l_status = Planned,
                   l_createdAt = 5, l_deliveredAt = None\<rparr> store0)
         (planner0\<lparr>p_items := [\<lparr>i_grade = Diesel, i_qty = Fin 100\<rparr>]\<rparr>))))) = [5, 5]"
  by (simp add: handleCreateLoad_def addLoad_def store0_def planner0_def)

section \<open>The capacity invariant\<close>

lemma within_capacity_addItem:
  "within_capacity (p_items p) \<Longrightarrow> within_capacity (p_items (snd (addItem p)))"
  by (simp add: addItem_def within_capacity_def totalQty_snoc)

lemma capacity_inv_handleCreateLoad:
  "capacity_inv (st, p) \<Longrightarrow> capacity_inv (snd (handleCreateLoad idNow createdNow st p))"
  by (simp add: handleCreateLoad_def capacity_inv_def addLoad_def Let_def
      within_capacity_def totalQty_def maxGal_def)

lemma capacity_inv_markLoadDelivered:
  "capacity_inv (st, p) \<Longrightarrow> capacity_inv (markLoadDelivered k now st, p)"
  by (auto simp: capacity_inv_def markLoadDelivered_def list_all_iff)

lemma capacity_inv_step: "capacity_inv s \<Longrightarrow> capacity_inv (step e s)"
proof -
  assume inv: "capacity_inv s"
  obtain st p where s: "s = (st, p)" by (cases s)
  show ?thesis
  proof (cases e)
    case AddItem
    with inv s within_capacity_addItem [of p] show ?thesis
      by (simp add: capacity_inv_def)
  next
    case (CreateLoad idNow createdNow)
    with inv s capacity_inv_handleCreateLoad [of st p idNow createdNow] show ?thesis
      by simp
  next
    case MountPlanner
    with inv s show ?thesis
      by (simp add: capacity_inv_def mountPlanner_def within_capacity_def totalQty_def
          maxGal_def)
  next
    case (MarkLoadDelivered k now)
    with inv s capacity_inv_markLoadDelivered [of st p k now] show ?thesis
      by simp
  qed (use inv s in \<open>simp_all add: capacity_inv_def setSiteId_def setDriverId_def
        setGrade_def setQty_def addSite_def updateSite_def deleteSite_def
        addTankToSite_def addDriver_def updateDriver_def deleteDriver_def\<close>)
qed

lemma capacity_inv_run: "capacity_inv s \<Longrightarrow> capacity_inv (run es s)"
  by (induction es arbitrary: s) (simp_all add: capacity_inv_step)

lemma capacity_inv_initial: "capacity_inv (store0, planner0)"
  by (simp add: capacity_inv_def store0_def planner0_def within_capacity_def totalQty_def
      maxGal_def)

lemma within_capacity_exact:
  assumes "within_capacity its" and "\<forall>i \<in> set its. is_nat_num (i_qty i)"
  shows "exactQty its \<le> 8800"
  using assms nat_total_gt_iff [of its] by (simp add: within_capacity_def)

text \<open>
  C5 (as amended). After every sequence of operations from the initial state,
  every load in the store, each produced by \<open>handleCreateLoad\<close> from items
  accumulated through \<open>addItem\<close> from the empty list, has a total, summed as the
  code sums it (in double precision, in list order), that is not greater than
  8800, and so has the item list under assembly. Where the quantities are
  non-negative integers, the exact sum is at most 8800.
\<close>

theorem capacity_invariant_rounded:
  "(\<forall>l \<in> set (loads (fst (run es (store0, planner0)))).
       \<not> js_gt (totalQty (l_items l)) (Fin 8800)
       \<and> ((\<forall>i \<in> set (l_items l). is_nat_num (i_qty i)) \<longrightarrow> exactQty (l_items l) \<le> 8800))
   \<and> \<not> js_gt (totalQty (p_items (snd (run es (store0, planner0))))) (Fin 8800)
   \<and> ((\<forall>i \<in> set (p_items (snd (run es (store0, planner0)))). is_nat_num (i_qty i)) \<longrightarrow>
        exactQty (p_items (snd (run es (store0, planner0)))) \<le> 8800)"
proof -
  have inv: "capacity_inv (run es (store0, planner0))"
    by (rule capacity_inv_run [OF capacity_inv_initial])
  then have "\<forall>l \<in> set (loads (fst (run es (store0, planner0)))). within_capacity (l_items l)"
    and "within_capacity (p_items (snd (run es (store0, planner0))))"
    by (simp_all add: capacity_inv_def list_all_iff)
  then show ?thesis
    using within_capacity_exact by (auto simp: within_capacity_def maxGal_def)
qed

text \<open>
  Witness: 5000 and 3000 gallons are added, 801 more are refused, the load is
  created and then delivered; the store holds that one load of 8000 gallons.
\<close>

theorem capacity_invariant_rounded_witness:
  "map (\<lambda>l. map i_qty (l_items l))
       (loads (fst (run [SetQty (Fin 5000), AddItem, SetGrade Diesel, SetQty (Fin 3000),
                         AddItem, SetQty (Fin 801), AddItem, CreateLoad 10 11,
                         MarkLoadDelivered 10 20]
                        (store0, planner0))))
     = [[Fin 5000, Fin 3000]]
   \<and> exactQty (l_items (hd (loads (fst
          (run [SetQty (Fin 5000), AddItem, SetGrade Diesel, SetQty (Fin 3000),
                AddItem, SetQty (Fin 801), AddItem, CreateLoad 10 11,
                MarkLoadDelivered 10 20]
               (store0, planner0)))))) \<le> 8800"
proof -
  have "loads (fst (run [SetQty (Fin 5000), AddItem, SetGrade Diesel, SetQty (Fin 3000),
                         AddItem, SetQty (Fin 801), AddItem, CreateLoad 10 11,
                         MarkLoadDelivered 10 20]
                        (store0, planner0)))
        = [\<lparr>l_id = 10, l_siteId = IdNum 101, l_driverId = IdNum 1,
            l_items = [\<lparr>i_grade = Regular, i_qty = Fin 5000\<rparr>,
                       \<lparr>i_grade = Diesel, i_qty = Fin 3000\<rparr>],
            l_status = Delivered, l_createdAt = 11, l_deliveredAt = Some 20\<rparr>]"
    by (simp add: store0_def planner0_def setQty_def setGrade_def addItem_def totalQty_def
        maxGal_def handleCreateLoad_def addLoad_def markLoadDelivered_def Let_def
        rnd_int_exact)
  then show ?thesis
    using capacity_invariant_rounded [of "[SetQty (Fin 5000), AddItem, SetGrade Diesel,
                         SetQty (Fin 3000), AddItem, SetQty (Fin 801), AddItem,
                         CreateLoad 10 11, MarkLoadDelivered 10 20]"]
    by simp
qed

text \<open>
  The claim as stated fails for the exact sum: after adding \<open>-2^54\<close>, 1 and
  \<open>2^54 + 8800\<close>, each accepted because the code's rounded total never exceeds 8800,
  the created load's quantities sum to 8801.
\<close>

theorem capacity_exact_sum_counterexample:
  "map (\<lambda>l. map i_qty (l_items l))
       (loads (fst (run [SetQty (Fin (- 18014398509481984)), AddItem, SetQty (Fin 1), AddItem,
                         SetQty (Fin 18014398509490784), AddItem, CreateLoad 10 11]
                        (store0, planner0))))
     = [[Fin (- 18014398509481984), Fin 1, Fin 18014398509490784]]
   \<and> exactQty (l_items (hd (loads (fst
          (run [SetQty (Fin (- 18014398509481984)), AddItem, SetQty (Fin 1), AddItem,
                SetQty (Fin 18014398509490784), AddItem, CreateLoad 10 11]
               (store0, planner0)))))) = 8801"
  by (simp add: store0_def planner0_def setQty_def addItem_def totalQty_def exactQty_def
      maxGal_def handleCreateLoad_def addLoad_def Let_def
      rnd_neg_two54 rnd_neg_two54_plus_one rnd_int_exact)

section \<open>Properties of the store helpers\<close>


lemma map_if_absent:
  "k \<notin> f ` set xs \<Longrightarrow> map (\<lambda>x. if f x = k then g x else x) xs = xs"
  by (induction xs) auto

lemma filter_absent: "k \<notin> f ` set xs \<Longrightarrow> filter (\<lambda>x. f x \<noteq> k) xs = xs"
  by (induction xs) auto

text \<open>
  C6 (as amended). \<open>markLoadDelivered\<close> applied to a load that is already Delivered
  is not rejected: the load keeps its status and every other field, and its
  delivery timestamp is overwritten with the current clock reading; nothing else in
  the store changes. The proof-of-delivery page offers the upload only for the
  loads of its pending tab, all of which are Planned.
\<close>

theorem markLoadDelivered_again_overwrites:
  "(i < length (loads st) \<and> l_id (loads st ! i) = k \<and> l_status (loads st ! i) = Delivered \<longrightarrow>
      loads (markLoadDelivered k now st) ! i = (loads st ! i)\<lparr>l_deliveredAt := Some now\<rparr>)
   \<and> length (loads (markLoadDelivered k now st)) = length (loads st)
   \<and> sites (markLoadDelivered k now st) = sites st
   \<and> drivers (markLoadDelivered k now st) = drivers st
   \<and> (\<forall>l \<in> set (filteredLoads Pending st). l_status l = Planned)"
  by (simp add: markLoadDelivered_def filteredLoads_def)

theorem markLoadDelivered_again_overwrites_witness:
  "l_status (loads (markLoadDelivered 10 100 (addLoad
       \<lparr>l_id = 10, l_siteId = IdNum 101, l_driverId = IdNum 1,
        l_items = [\<lparr>i_grade = Regular, i_qty = Fin 5000\<rparr>], l_status = Planned,
        l_createdAt = 11, l_deliveredAt = None\<rparr> store0)) ! 0) = Delivered
   \<and> loads (markLoadDelivered 10 200 (markLoadDelivered 10 100 (addLoad
       \<lparr>l_id = 10, l_siteId = IdNum 101, l_driverId = IdNum 1,
        l_items = [\<lparr>i_grade = Regular, i_qty = Fin 5000\<rparr>], l_status = Planned,
        l_createdAt = 11, l_deliveredAt = None\<rparr> store0))) ! 0
      = \<lparr>l_id = 10, l_siteId = IdNum 101, l_driverId = IdNum 1,
        l_items = [\<lparr>i_grade = Regular, i_qty = Fin 5000\<rparr>], l_status = Delivered,
        l_createdAt = 11, l_deliveredAt = Some 200\<rparr>
   \<and> map l_status (filteredLoads Pending (addLoad
       \<lparr>l_id = 10, l_siteId = IdNum 101, l_driverId = IdNum 1,
        l_items = [\<lparr>i_grade = Regular, i_qty = Fin 5000\<rparr>], l_status = Planned,
        l_createdAt = 11, l_deliveredAt = None\<rparr> store0)) = [Planned]"
proof -
  let ?l = "\<lparr>l_id = 10, l_siteId = IdNum 101, l_driverId = IdNum 1,
        l_items = [\<lparr>i_grade = Regular, i_qty = Fin 5000\<rparr>], l_status = Planned,
        l_createdAt = 11, l_deliveredAt = None\<rparr>"
  let ?st0 = "addLoad ?l store0"
  let ?st1 = "markLoadDelivered 10 100 ?st0"
  have once: "loads ?st1 = [?l\<lparr>l_status := Delivered, l_deliveredAt := Some 100\<rparr>]"
    by (simp add: markLoadDelivered_def addLoad_def store0_def)
  have pre: "0 < length (loads ?st1) \<and> l_id (loads ?st1 ! 0) = 10
      \<and> l_status (loads ?st1 ! 0) = Delivered"
    by (simp add: once)
  from markLoadDelivered_again_overwrites [of 0 ?st1 10 200] pre
  have again: "loads (markLoadDelivered 10 200 ?st1) ! 0
      = (loads ?st1 ! 0)\<lparr>l_deliveredAt := Some 200\<rparr>"
    by blast
  have gate: "\<forall>l \<in> set (filteredLoads Pending ?st0). l_status l = Planned"
    using markLoadDelivered_again_overwrites [of 0 ?st0 10 100] by blast
  have shown: "length (filteredLoads Pending ?st0) = 1"
    by (simp add: filteredLoads_def addLoad_def store0_def)
  then obtain l where single: "filteredLoads Pending ?st0 = [l]"
    by (cases "filteredLoads Pending ?st0") auto
  with gate have "map l_status (filteredLoads Pending ?st0) = [Planned]"
    by simp
  with pre again show ?thesis
    by (simp add: once)
qed

text \<open>
  The claim as stated fails: a load delivered at time 100 and marked again at time
  200 is neither rejected nor left alone; its delivery timestamp becomes 200.
\<close>

theorem markLoadDelivered_twice_counterexample:
  "map l_deliveredAt (loads (markLoadDelivered 10 100 (addLoad
       \<lparr>l_id = 10, l_siteId = IdNum 101, l_driverId = IdNum 1,
        l_items = [\<lparr>i_grade = Regular, i_qty = Fin 5000\<rparr>], l_status = Planned,
        l_createdAt = 11, l_deliveredAt = None\<rparr> store0))) = [Some 100]
   \<and> map l_deliveredAt (loads (markLoadDelivered 10 200 (markLoadDelivered 10 100 (addLoad
       \<lparr>l_id = 10, l_siteId = IdNum 101, l_driverId = IdNum 1,
        l_items = [\<lparr>i_grade = Regular, i_qty = Fin 5000\<rparr>], l_status = Planned,
        l_createdAt = 11, l_deliveredAt = None\<rparr> store0)))) = [Some 200]
   \<and> markLoadDelivered 10 200 (markLoadDelivered 10 100 (addLoad
       \<lparr>l_id = 10, l_siteId = IdNum 101, l_driverId = IdNum 1,
        l_items = [\<lparr>i_grade = Regular, i_qty = Fin 5000\<rparr>], l_status = Planned,
        l_createdAt = 11, l_deliveredAt = None\<rparr> store0))
      \<noteq> markLoadDelivered 10 100 (addLoad
       \<lparr>l_id = 10, l_siteId = IdNum 101, l_driverId = IdNum 1,
        l_items = [\<lparr>i_grade = Regular, i_qty = Fin 5000\<rparr>], l_status = Planned,
        l_createdAt = 11, l_deliveredAt = None\<rparr> store0)"
  by (simp add: markLoadDelivered_def addLoad_def store0_def)

text \<open>
  C9. A store helper called with an id that no element of its collection carries
  returns the store exactly as it was; the helpers are total and have no error
  outcome.
\<close>

theorem store_helpers_absent_id_noop:
  "(k \<notin> s_id ` set (sites st) \<longrightarrow>
      updateSite k patch st = st \<and> deleteSite k st = st \<and> addTankToSite k tank st = st)
   \<and> (k \<notin> d_id ` set (drivers st) \<longrightarrow>
      updateDriver k dpatch st = st \<and> deleteDriver k st = st)
   \<and> (k \<notin> l_id ` set (loads st) \<longrightarrow> markLoadDelivered k now st = st)"
  by (simp add: updateSite_def deleteSite_def addTankToSite_def updateDriver_def
      deleteDriver_def markLoadDelivered_def map_if_absent filter_absent)

theorem store_helpers_absent_id_noop_witness:
  "(7::int) \<notin> s_id ` set (sites store0) \<and> 7 \<notin> d_id ` set (drivers store0)
   \<and> 7 \<notin> l_id ` set (loads store0)
   \<and> updateSite 7 \<lparr>sp_id = None, sp_name = Some ''Depot'', sp_address = None,
                    sp_phone = None, sp_tanks = None\<rparr> store0 = store0
   \<and> deleteSite 7 store0 = store0
   \<and> addTankToSite 7 \<lparr>t_id = 3, t_grade = Diesel, t_capacity = Fin 500\<rparr> store0 = store0
   \<and> updateDriver 7 \<lparr>dp_id = None, dp_name = Some ''A. Khan'', dp_phone = None\<rparr> store0 = store0
   \<and> deleteDriver 7 store0 = store0
   \<and> markLoadDelivered 7 100 store0 = store0"
proof -
  have absent: "(7::int) \<notin> s_id ` set (sites store0) \<and> 7 \<notin> d_id ` set (drivers store0)
      \<and> 7 \<notin> l_id ` set (loads store0)"
    by (simp add: store0_def)
  with store_helpers_absent_id_noop [of 7 store0
      "\<lparr>sp_id = None, sp_name = Some ''Depot'', sp_address = None,
        sp_phone = None, sp_tanks = None\<rparr>"
      "\<lparr>t_id = 3, t_grade = Diesel, t_capacity = Fin 500\<rparr>"
      "\<lparr>dp_id = None, dp_name = Some ''A. Khan'', dp_phone = None\<rparr>" 100]
  show ?thesis by blast
qed

text \<open>
  C10. Deleting a site or a driver changes only that collection. A load that
  refers to the deleted entity is still in the store, unchanged, and now no site
  (driver) with the id it carries exists.
\<close>

theorem delete_leaves_loads_dangling:
  "loads (deleteSite k st) = loads st \<and> drivers (deleteSite k st) = drivers st
   \<and> loads (deleteDriver k st) = loads st \<and> sites (deleteDriver k st) = sites st
   \<and> (l \<in> set (loads st) \<and> l_siteId l = IdNum k \<longrightarrow>
        l \<in> set (loads (deleteSite k st))
        \<and> \<not> (\<exists>s \<in> set (sites (deleteSite k st)). IdNum (s_id s) = l_siteId l))
   \<and> (l \<in> set (loads st) \<and> l_driverId l = IdNum k \<longrightarrow>
        l \<in> set (loads (deleteDriver k st))
        \<and> \<not> (\<exists>d \<in> set (drivers (deleteDriver k st)). IdNum (d_id d) = l_driverId l))"
  by (auto simp: deleteSite_def deleteDriver_def)

text \<open>
  Witness: on the initial store with one load for site 101 and driver 1, deleting
  the site empties the sites, deleting the driver empties the drivers, and the
  load stays as it was.
\<close>

theorem delete_leaves_loads_dangling_witness:
  "loads (deleteSite 101 (addLoad
       \<lparr>l_id = 10, l_siteId = IdNum 101, l_driverId = IdNum 1,
        l_items = [\<lparr>i_grade = Regular, i_qty = Fin 5000\<rparr>], l_status = Planned,
        l_createdAt = 11, l_deliveredAt = None\<rparr> store0))
     = [\<lparr>l_id = 10, l_siteId = IdNum 101, l_driverId = IdNum 1,
        l_items = [\<lparr>i_grade = Regular, i_qty = Fin 5000\<rparr>], l_status = Planned,
        l_createdAt = 11, l_deliveredAt = None\<rparr>]
   \<and> sites (deleteSite 101 (addLoad
       \<lparr>l_id = 10, l_siteId = IdNum 101, l_driverId = IdNum 1,
        l_items = [\<lparr>i_grade = Regular, i_qty = Fin 5000\<rparr>], l_status = Planned,
        l_createdAt = 11, l_deliveredAt = None\<rparr> store0)) = []
   \<and> loads (deleteDriver 1 (addLoad
       \<lparr>l_id = 10, l_siteId = IdNum 101, l_driverId = IdNum 1,
        l_items = [\<lparr>i_grade = Regular, i_qty = Fin 5000\<rparr>], l_status = Planned,
        l_createdAt = 11, l_deliveredAt = None\<rparr> store0))
     = [\<lparr>l_id = 10, l_siteId = IdNum 101, l_driverId = IdNum 1,
        l_items = [\<lparr>i_grade = Regular, i_qty = Fin 5000\<rparr>], l_status = Planned,
        l_createdAt = 11, l_deliveredAt = None\<rparr>]
   \<and> drivers (deleteDriver 1 (addLoad
       \<lparr>l_id = 10, l_siteId = IdNum 101, l_driverId = IdNum 1,
        l_items = [\<lparr>i_grade = Regular, i_qty = Fin 5000\<rparr>], l_status = Planned,
        l_createdAt = 11, l_deliveredAt = None\<rparr> store0)) = []"
  using delete_leaves_loads_dangling [of 101 "addLoad
       \<lparr>l_id = 10, l_siteId = IdNum 101, l_driverId = IdNum 1,
        l_items = [\<lparr>i_grade = Regular, i_qty = Fin 5000\<rparr>], l_status = Planned,
        l_createdAt = 11, l_deliveredAt = None\<rparr> store0"
       "\<lparr>l_id = 10, l_siteId = IdNum 101, l_driverId = IdNum 1,
        l_items = [\<lparr>i_grade = Regular, i_qty = Fin 5000\<rparr>], l_status = Planned,
        l_createdAt = 11, l_deliveredAt = None\<rparr>"]
    delete_leaves_loads_dangling [of 1 "addLoad
       \<lparr>l_id = 10, l_siteId = IdNum 101, l_driverId = IdNum 1,
        l_items = [\<lparr>i_grade = Regular, i_qty = Fin 5000\<rparr>], l_status = Planned,
        l_createdAt = 11, l_deliveredAt = None\<rparr> store0"
       "\<lparr>l_id = 10, l_siteId = IdNum 101, l_driverId = IdNum 1,
        l_items = [\<lparr>i_grade = Regular, i_qty = Fin 5000\<rparr>], l_status = Planned,
        l_createdAt = 11, l_deliveredAt = None\<rparr>"]
  by (simp add: addLoad_def store0_def deleteSite_def deleteDriver_def)

section \<open>Properties of the distance estimate\<close>

lemma Math_atan2_NaN_right: "Math_atan2 m y NaN = NaN"
  by (cases y) simp_all

lemma Math_PI_pos: "0 < Math_PI"
  by (simp add: Math_PI_def)

lemma js_sub_not_finite: "\<not> isFinite x \<or> \<not> isFinite y \<Longrightarrow> \<not> isFinite (js_sub x y)"
  by (cases x; cases y) (simp_all add: js_sub_def)

lemma toRad_not_finite: "\<not> isFinite x \<Longrightarrow> \<not> isFinite (toRad x)"
  using Math_PI_pos by (cases x) (simp_all add: toRad_def signed_inf_def)

lemma half_not_finite: "\<not> isFinite x \<Longrightarrow> \<not> isFinite (js_div x (Fin 2))"
  by (cases x) simp_all

lemma Math_sin_not_finite: "\<not> isFinite x \<Longrightarrow> Math_sin m x = NaN"
  by (cases x) simp_all

text \<open>A coordinate difference that is not finite makes its haversine term NaN.\<close>

lemma hav_term_NaN:
  assumes "\<not> isFinite (js_sub u v)"
  shows "js_pow2 m (Math_sin m (js_div (toRad (js_sub u v)) (Fin 2))) = NaN"
proof -
  from assms have "\<not> isFinite (js_div (toRad (js_sub u v)) (Fin 2))"
    by (intro half_not_finite toRad_not_finite)
  then show ?thesis by (simp add: Math_sin_not_finite)
qed

lemma haversineDistance_diff_NaN:
  assumes "\<not> isFinite (js_sub lat2 lat1) \<or> \<not> isFinite (js_sub lon2 lon1)"
  shows "haversineDistance m (lon1, lat1) (lon2, lat2) = NaN"
proof (cases "isFinite (js_sub lat2 lat1)")
  case False
  then have "js_pow2 m (Math_sin m (js_div (toRad (js_sub lat2 lat1)) (Fin 2))) = NaN"
    by (rule hav_term_NaN)
  then show ?thesis
    by (simp add: haversineDistance_def Let_def)
next
  case True
  with assms have "js_pow2 m (Math_sin m (js_div (toRad (js_sub lon2 lon1)) (Fin 2))) = NaN"
    by (intro hav_term_NaN) blast
  then show ?thesis
    by (simp add: haversineDistance_def Let_def js_add_NaN_right js_mul_NaN_right js_sub_def)
qed

lemma haversineDistance_NaN:
  assumes "\<not> (isFinite lon1 \<and> isFinite lat1 \<and> isFinite lon2 \<and> isFinite lat2)"
  shows "haversineDistance m (lon1, lat1) (lon2, lat2) = NaN"
proof -
  from assms have "\<not> isFinite (js_sub lat2 lat1) \<or> \<not> isFinite (js_sub lon2 lon1)"
    using js_sub_not_finite [of lat2 lat1] js_sub_not_finite [of lon2 lon1] by blast
  then show ?thesis by (rule haversineDistance_diff_NaN)
qed

text \<open>
  C7 (as amended). When any coordinate is not finite (NaN or an infinity), the
  estimate does not fail: no error is raised, and both the distance and the ETA
  are NaN, whatever the speed and the implementation of the \<^verbatim>\<open>Math\<close> functions.
\<close>

theorem estimate_nonfinite_gives_NaN:
  "\<not> (isFinite lon1 \<and> isFinite lat1 \<and> isFinite lon2 \<and> isFinite lat2) \<Longrightarrow>
     estimate m (lon1, lat1) (lon2, lat2) speedKmH = (NaN, NaN)"
  by (simp add: estimate_def Let_def haversineDistance_NaN)

theorem estimate_nonfinite_gives_NaN_witness:
  "\<not> isFinite PInf
   \<and> estimate exact_math (Fin (- 84.31), PInf) (Fin (- 84.51), Fin 39.10) (Fin 55) = (NaN, NaN)
   \<and> estimate exact_math (Fin (- 84.31), Fin 39.30) (NaN, Fin 39.10) (Fin 55) = (NaN, NaN)"
  using estimate_nonfinite_gives_NaN
      [of "Fin (- 84.31)" PInf "Fin (- 84.51)" "Fin 39.10" exact_math "Fin 55"]
    estimate_nonfinite_gives_NaN
      [of "Fin (- 84.31)" "Fin 39.30" NaN "Fin 39.10" exact_math "Fin 55"]
  by simp

text \<open>
  The claim as stated fails: with a NaN longitude the estimate is a pair of NaNs,
  and \<open>handleETA\<close> shows the success notification carrying them.
\<close>

theorem estimate_nonfinite_counterexample:
  "estimate exact_math (NaN, Fin 39.30) (Fin (- 84.51), Fin 39.10) (Fin 55) = (NaN, NaN)
   \<and> handleETA exact_math True [(NaN, Fin 39.30)] (sites store0)
       = Inr (Some \<lparr>eta_site = ''Shell '' @ [CHR 0xE2, CHR 0x80, CHR 0x93] @ '' Clifton'',
                     eta_min = NaN, eta_km = NaN\<rparr>)"
proof -
  have "\<And>to. estimate exact_math (NaN, Fin 39.30) to (Fin 55) = (NaN, NaN)"
    by (simp add: estimate_def haversineDistance_def js_sub_def js_add_NaN_right
        js_mul_NaN_right toRad_def Let_def split: prod.split)
  then show ?thesis
    by (simp add: handleETA_def store0_def Let_def)
qed

subsection \<open>Symmetry\<close>






















end
